theory Spec2Isabelle
  imports Complex_Main
begin

section \<open>The 2D canvas backend used by CACanvas\<close>

text \<open>
  \<^verbatim>\<open>src/js/CACanvas.js\<close> is a thin class over the browser's canvas API. The class is
  translated line by line below; the API calls it makes are modelled first, as far as the
  HTML standard fixes them. What the standard leaves to the browser is a parameter, the
  \<open>backend\<close>: which strings it parses as CSS colours, which canvas sizes it allocates a
  bitmap for, and how it renders outside the default drawing state.
  \<^item> Numbers are the integer-valued JavaScript numbers the class is called with, modelled
    as \<open>int\<close>; \<open>Math.floor (c / 2)\<close> is \<open>c div 2\<close>. The product in the constructor is a product
    of doubles and is rounded as one; drawing coordinates are taken below \<open>2 ^ 53\<close>, where
    the arithmetic is exact.
  \<^item> A canvas keeps the chronological list of the paint operations its context has carried
    out (a display list). \<open>pixel\<close> reads the picture off that list, with ideal geometry: a
    paint covers a point or it does not, and how a backend blends the pixels on the edge of
    a figure is left open. A canvas that the backend allocates no bitmap for shows nothing.
  \<^item> Angles are kept in units of \<open>\<pi>\<close> (half turns), so that \<open>Math.PI\<close> is 1 and the
    model needs neither floating point nor transcendental numbers.
  \<^item> An exception is an \<open>Inl\<close> result, returned together with the state reached when
    it was thrown.
\<close>

datatype error = TypeError | IndexSizeError | InvalidStateError

type_synonym point = "real \<times> real"

definition Math_PI :: real where
  "Math_PI = 1"

subsection \<open>Numbers\<close>

text \<open>
  The product of two doubles is the exact product rounded to the nearest double, ties to
  the even mantissa, and infinite from \<open>2 ^ 1024 - 2 ^ 970\<close> on. An integer of at most 53
  bits is a double.
\<close>

datatype number = Finite int | Infinity

function bitlen :: "int \<Rightarrow> nat" where
  "bitlen n = (if n \<le> 0 then 0 else Suc (bitlen (n div 2)))"
  by pat_completeness auto
termination
  by (relation "measure nat") auto

declare bitlen.simps [simp del]

definition round_double :: "int \<Rightarrow> number" where
  "round_double n =
     (let m = \<bar>n\<bar>; l = bitlen m
      in if l \<le> 53 then Finite n
         else (let e = l - 53; q = m div 2 ^ e; r = m mod 2 ^ e; h = 2 ^ (e - 1);
                   q' = (if h < r \<or> (r = h \<and> odd q) then q + 1 else q);
                   v = q' * 2 ^ e
               in if 2 ^ 1024 \<le> v then Infinity else Finite (sgn n * v)))"

definition js_times :: "int \<Rightarrow> int \<Rightarrow> number" where
  "js_times a b = round_double (a * b)"

text \<open>The conversion of a number to the IDL type \<open>unsigned long\<close>.\<close>

definition ToUint32 :: "number \<Rightarrow> int" where
  "ToUint32 v = (case v of Finite n \<Rightarrow> n mod 2 ^ 32 | Infinity \<Rightarrow> 0)"

subsection \<open>Paths, paints and drawing state\<close>

datatype path_cmd =
    Rect int int int int
  | Arc int int int real real
  | MoveTo int int
  | LineTo int int

text \<open>
  The part of a context's drawing state that \<open>drawImage\<close> obeys. The transform is the
  matrix \<open>(a, b, c, d, e, f)\<close>; no clipping path is \<open>None\<close>.
\<close>

record dstate =
  transform :: "real \<times> real \<times> real \<times> real \<times> real \<times> real"
  clip :: "path_cmd list option"
  globalAlpha :: real
  globalCompositeOperation :: string
  shadowColor :: string
  shadowBlur :: real
  shadowOffsetX :: real
  shadowOffsetY :: real
  filter_css :: string

definition default_dstate :: dstate where
  "default_dstate =
     \<lparr>transform = (1, 0, 0, 1, 0, 0), clip = None, globalAlpha = 1,
      globalCompositeOperation = ''source-over'', shadowColor = ''rgba(0, 0, 0, 0)'',
      shadowBlur = 0, shadowOffsetX = 0, shadowOffsetY = 0, filter_css = ''none''\<rparr>"

text \<open>
  A drawn image keeps the drawing state it was drawn in, the source canvas's paints and
  size as they were at the call, and the source and destination rectangles.
\<close>

datatype paint =
    Fill "path_cmd list" string
  | Stroke "path_cmd list" string real
  | DrawImage dstate "paint list" int int  int int int int  int int int int

text \<open>
  What a canvas shows at a point: nothing, one opaque colour, or a translucent colour
  blended over what lies below it.
\<close>

datatype shade = Blank | Solid string | Blend string shade

datatype css = Opaque | Translucent

record backend =
  css :: "string \<Rightarrow> css option"
  allocates :: "int \<Rightarrow> int \<Rightarrow> bool"
  render :: "paint \<Rightarrow> point \<Rightarrow> shade \<Rightarrow> shade"

text \<open>
  How the backend reads a style string: \<open>None\<close> when it is no CSS colour. The black that the
  class itself assigns, and that is every context's initial style, is an opaque colour for
  every backend.
\<close>

definition css_colour :: "backend \<Rightarrow> string \<Rightarrow> css option" where
  "css_colour B s = (if s = ''#000000'' then Some Opaque else css B s)"

record canvas =
  width :: int
  height :: int
  paints :: "paint list"

record context2d =
  canvas :: canvas
  path :: "path_cmd list"
  fillStyle :: string
  strokeStyle :: string
  lineWidth :: real
  dstate :: dstate

subsection \<open>Canvas elements\<close>

text \<open>
  \<open>canvas.width\<close> and \<open>canvas.height\<close> are IDL attributes of type \<open>unsigned long\<close>
  that reflect the content attributes, with defaults 300 and 150. The assigned number is
  first converted to \<open>unsigned long\<close> (modulo \<open>2 ^ 32\<close>); a value above 2147483647 is
  replaced by the default. Assigning either attribute clears the canvas.
\<close>

definition reflect_unsigned_long :: "int \<Rightarrow> number \<Rightarrow> int" where
  "reflect_unsigned_long dflt v =
     (let u = ToUint32 v in if u \<le> 2147483647 then u else dflt)"

definition createElement_canvas :: canvas where
  "createElement_canvas = \<lparr>width = 300, height = 150, paints = []\<rparr>"

definition set_width :: "number \<Rightarrow> canvas \<Rightarrow> canvas" where
  "set_width v cv = cv\<lparr>width := reflect_unsigned_long 300 v, paints := []\<rparr>"

definition set_height :: "number \<Rightarrow> canvas \<Rightarrow> canvas" where
  "set_height v cv = cv\<lparr>height := reflect_unsigned_long 150 v, paints := []\<rparr>"

text \<open>\<open>getContext("2d")\<close> on a canvas that has no context yet: a context in its default state.\<close>

definition getContext_2d :: "canvas \<Rightarrow> context2d" where
  "getContext_2d cv =
     \<lparr>canvas = cv, path = [], fillStyle = ''#000000'', strokeStyle = ''#000000'',
      lineWidth = 1, dstate = default_dstate\<rparr>"

subsection \<open>Path building and painting\<close>

definition beginPath :: "context2d \<Rightarrow> context2d" where
  "beginPath c = c\<lparr>path := []\<rparr>"

definition rect :: "int \<Rightarrow> int \<Rightarrow> int \<Rightarrow> int \<Rightarrow> context2d \<Rightarrow> context2d" where
  "rect x y w h c = c\<lparr>path := path c @ [Rect x y w h]\<rparr>"

text \<open>\<open>arc\<close> throws an \<open>IndexSizeError\<close> when the radius is negative.\<close>

definition arc :: "int \<Rightarrow> int \<Rightarrow> int \<Rightarrow> real \<Rightarrow> real \<Rightarrow> context2d \<Rightarrow> error + context2d" where
  "arc x y r sa ea c =
     (if r < 0 then Inl IndexSizeError else Inr (c\<lparr>path := path c @ [Arc x y r sa ea]\<rparr>))"

definition moveTo :: "int \<Rightarrow> int \<Rightarrow> context2d \<Rightarrow> context2d" where
  "moveTo x y c = c\<lparr>path := path c @ [MoveTo x y]\<rparr>"

definition lineTo :: "int \<Rightarrow> int \<Rightarrow> context2d \<Rightarrow> context2d" where
  "lineTo x y c = c\<lparr>path := path c @ [LineTo x y]\<rparr>"

text \<open>
  Assigning a style: a string that the backend does not parse as a CSS colour is ignored,
  and the attribute keeps its previous value.
\<close>

definition assigned :: "backend \<Rightarrow> string \<Rightarrow> string \<Rightarrow> string" where
  "assigned B s previous = (if css_colour B s = None then previous else s)"

definition set_fillStyle :: "backend \<Rightarrow> string \<Rightarrow> context2d \<Rightarrow> context2d" where
  "set_fillStyle B s c = c\<lparr>fillStyle := assigned B s (fillStyle c)\<rparr>"

definition set_strokeStyle :: "backend \<Rightarrow> string \<Rightarrow> context2d \<Rightarrow> context2d" where
  "set_strokeStyle B s c = c\<lparr>strokeStyle := assigned B s (strokeStyle c)\<rparr>"

text \<open>
  \<open>fill\<close> and \<open>stroke\<close> put a paint on the canvas's list. Whether the canvas holds pixels
  for it to show is the backend's allocation, which \<open>pixel\<close> below asks. The class applies
  the two only to its own context, which stays in the default drawing state it is created
  in, so these paints carry no drawing state.
\<close>

definition paint_on :: "paint \<Rightarrow> canvas \<Rightarrow> canvas" where
  "paint_on l cv = cv\<lparr>paints := paints cv @ [l]\<rparr>"

definition fill :: "context2d \<Rightarrow> context2d" where
  "fill c = c\<lparr>canvas := paint_on (Fill (path c) (fillStyle c)) (canvas c)\<rparr>"

definition stroke :: "context2d \<Rightarrow> context2d" where
  "stroke c = c\<lparr>canvas := paint_on (Stroke (path c) (strokeStyle c) (lineWidth c)) (canvas c)\<rparr>"

text \<open>
  The nine-argument \<open>drawImage\<close> with a canvas as the image: a source canvas with a zero
  dimension throws \<open>InvalidStateError\<close>, an empty source rectangle paints nothing, and
  otherwise the image is drawn in the context's current drawing state.
\<close>

definition drawImage ::
  "canvas \<Rightarrow> int \<Rightarrow> int \<Rightarrow> int \<Rightarrow> int \<Rightarrow> int \<Rightarrow> int \<Rightarrow> int \<Rightarrow> int \<Rightarrow> context2d \<Rightarrow> error + context2d" where
  "drawImage img sx sy sw sh dx dy dw dh c =
     (if width img = 0 \<or> height img = 0 then Inl InvalidStateError
      else if sw = 0 \<or> sh = 0 then Inr c
      else Inr (c\<lparr>canvas :=
             paint_on (DrawImage (dstate c) (paints img) (width img) (height img)
                         sx sy sw sh dx dy dw dh)
               (canvas c)\<rparr>))"

subsection \<open>The document\<close>

text \<open>
  What \<open>document.getElementById\<close> can find: a canvas with its 2D context, a canvas bound to
  another kind of context (its \<open>getContext("2d")\<close> is \<open>null\<close>), or an element that is no
  canvas at all (it has no \<open>getContext\<close>, so calling it throws a \<open>TypeError\<close>).
\<close>

datatype element = Canvas2D context2d | CanvasOther canvas | OtherElement

type_synonym document = "string \<Rightarrow> element option"

definition getElementById :: "document \<Rightarrow> string \<Rightarrow> element option" where
  "getElementById d i = d i"

fun getContext :: "element \<Rightarrow> error + context2d option" where
  "getContext (Canvas2D c) = Inr (Some c)"
| "getContext (CanvasOther cv) = Inr None"
| "getContext OtherElement = Inl TypeError"

section \<open>The picture a display list stands for\<close>

text \<open>
  Points are in canvas coordinates; pixel \<open>(i, j)\<close> is the unit square with top-left corner
  \<open>(i, j)\<close>. A fill covers the inside of its figures, a stroke the band of the line width
  around them. Every path that CACanvas builds is a single figure (a rectangle, a full
  circle or one segment), so line joins, and the line an arc gets in front when the path is
  not empty, are left out.
\<close>

definition in_rect :: "int \<Rightarrow> int \<Rightarrow> int \<Rightarrow> int \<Rightarrow> point \<Rightarrow> bool" where
  "in_rect x y w h p =
     (real_of_int (min x (x + w)) \<le> fst p \<and> fst p < real_of_int (max x (x + w)) \<and>
      real_of_int (min y (y + h)) \<le> snd p \<and> snd p < real_of_int (max y (y + h)))"

definition dist2 :: "int \<Rightarrow> int \<Rightarrow> point \<Rightarrow> real" where
  "dist2 cx cy p = (fst p - real_of_int cx)\<^sup>2 + (snd p - real_of_int cy)\<^sup>2"

definition in_disc :: "int \<Rightarrow> int \<Rightarrow> int \<Rightarrow> point \<Rightarrow> bool" where
  "in_disc cx cy r p = (0 < r \<and> dist2 cx cy p \<le> (real_of_int r)\<^sup>2)"

definition on_circle :: "int \<Rightarrow> int \<Rightarrow> int \<Rightarrow> real \<Rightarrow> point \<Rightarrow> bool" where
  "on_circle cx cy r lw p =
     (0 < r \<and> dist2 cx cy p \<le> (real_of_int r + lw / 2)\<^sup>2 \<and>
      (real_of_int r \<le> lw / 2 \<or> (real_of_int r - lw / 2)\<^sup>2 \<le> dist2 cx cy p))"

definition on_segment :: "int \<times> int \<Rightarrow> int \<times> int \<Rightarrow> real \<Rightarrow> point \<Rightarrow> bool" where
  "on_segment a b lw p =
     (let dx = real_of_int (fst b - fst a); dy = real_of_int (snd b - snd a);
          l2 = dx\<^sup>2 + dy\<^sup>2;
          t = (fst p - real_of_int (fst a)) * dx + (snd p - real_of_int (snd a)) * dy;
          n = (fst p - real_of_int (fst a)) * dy - (snd p - real_of_int (snd a)) * dx
      in 0 < l2 \<and> 0 \<le> t \<and> t \<le> l2 \<and> n\<^sup>2 \<le> (lw / 2)\<^sup>2 * l2)"

definition on_rect_border :: "int \<Rightarrow> int \<Rightarrow> int \<Rightarrow> int \<Rightarrow> real \<Rightarrow> point \<Rightarrow> bool" where
  "on_rect_border x y w h lw p =
     (let x0 = real_of_int (min x (x + w)); x1 = real_of_int (max x (x + w));
          y0 = real_of_int (min y (y + h)); y1 = real_of_int (max y (y + h)); e = lw / 2
      in (x0 - e \<le> fst p \<and> fst p \<le> x1 + e \<and> y0 - e \<le> snd p \<and> snd p \<le> y1 + e) \<and>
         \<not> (x0 + e < fst p \<and> fst p < x1 - e \<and> y0 + e < snd p \<and> snd p < y1 - e))"

fun fill_covers :: "path_cmd list \<Rightarrow> point \<Rightarrow> bool" where
  "fill_covers [] p = False"
| "fill_covers (Rect x y w h # cs) p = (in_rect x y w h p \<or> fill_covers cs p)"
| "fill_covers (Arc cx cy r sa ea # cs) p =
     ((2 * Math_PI \<le> ea - sa \<and> in_disc cx cy r p) \<or> fill_covers cs p)"
| "fill_covers (MoveTo x y # cs) p = fill_covers cs p"
| "fill_covers (LineTo x y # cs) p = fill_covers cs p"

fun stroke_covers :: "(int \<times> int) option \<Rightarrow> path_cmd list \<Rightarrow> real \<Rightarrow> point \<Rightarrow> bool" where
  "stroke_covers cur [] lw p = False"
| "stroke_covers cur (Rect x y w h # cs) lw p =
     (on_rect_border x y w h lw p \<or> stroke_covers (Some (x, y)) cs lw p)"
| "stroke_covers cur (Arc cx cy r sa ea # cs) lw p =
     ((2 * Math_PI \<le> ea - sa \<and> on_circle cx cy r lw p) \<or> stroke_covers (Some (cx + r, cy)) cs lw p)"
| "stroke_covers cur (MoveTo x y # cs) lw p = stroke_covers (Some (x, y)) cs lw p"
| "stroke_covers None (LineTo x y # cs) lw p = stroke_covers (Some (x, y)) cs lw p"
| "stroke_covers (Some a) (LineTo x y # cs) lw p =
     (on_segment a (x, y) lw p \<or> stroke_covers (Some (x, y)) cs lw p)"

text \<open>
  Painting a style over a shade: an opaque colour replaces what is below, a translucent
  one is blended over it. (A string that is no colour cannot be a context's style; it
  paints nothing.)
\<close>

definition lay :: "backend \<Rightarrow> string \<Rightarrow> shade \<Rightarrow> shade" where
  "lay B k below =
     (case css_colour B k of
        Some Opaque \<Rightarrow> Solid k
      | Some Translucent \<Rightarrow> Blend k below
      | None \<Rightarrow> below)"

text \<open>An image over a shade (the \<open>source-over\<close> composition).\<close>

fun over :: "shade \<Rightarrow> shade \<Rightarrow> shade" where
  "over Blank below = below"
| "over (Solid k) below = Solid k"
| "over (Blend k s) below = Blend k (over s below)"

text \<open>
  The point of the source rectangle that corresponds to a point of the destination
  rectangle: a uniform scaling of each axis.
\<close>

definition scale_point ::
  "int \<Rightarrow> int \<Rightarrow> int \<Rightarrow> int \<Rightarrow> int \<Rightarrow> int \<Rightarrow> int \<Rightarrow> int \<Rightarrow> point \<Rightarrow> point" where
  "scale_point sx sy sw sh dx dy dw dh p =
     (real_of_int sx + (fst p - real_of_int dx) * real_of_int sw / real_of_int dw,
      real_of_int sy + (snd p - real_of_int dy) * real_of_int sh / real_of_int dh)"

text \<open>
  One paint on top of what a point shows. An image drawn in the default drawing state
  shows, at a point of its destination rectangle, what the source canvas showed at the
  corresponding point, over what was there; a source canvas without a bitmap contributes
  nothing. In any other drawing state (a transform, a clip, a global alpha, another
  composite mode, a shadow, a filter) the result is the backend's.
\<close>

fun apply_paint :: "backend \<Rightarrow> paint \<Rightarrow> point \<Rightarrow> shade \<Rightarrow> shade" where
  "apply_paint B (Fill cs k) p below = (if fill_covers cs p then lay B k below else below)"
| "apply_paint B (Stroke cs k lw) p below =
     (if stroke_covers None cs lw p then lay B k below else below)"
| "apply_paint B (DrawImage st src w h sx sy sw sh dx dy dw dh) p below =
     (if st = default_dstate then
        (if in_rect dx dy dw dh p \<and> allocates B w h \<and>
            in_rect 0 0 w h (scale_point sx sy sw sh dx dy dw dh p)
         then over
                (fold (\<lambda>l b. apply_paint B l (scale_point sx sy sw sh dx dy dw dh p) b)
                   src Blank)
                below
         else below)
      else render B (DrawImage st src w h sx sy sw sh dx dy dw dh) p below)"




section \<open>The class CACanvas\<close>

text \<open>
  The fields \<open>buffer\<close> and \<open>ctx.canvas\<close> of an instance are the same object; the record
  holds it once, inside \<open>ctx\<close>. The buffer is created by \<open>document.createElement\<close> and never
  inserted into the document, so no identifier resolves to it: the document and the
  instance are separate parts of the state. The field \<open>size\<close> is written \<open>size'\<close>, since
  \<open>size\<close> is a constant of HOL.
\<close>

record CACanvas =
  size' :: int
  cSize :: int
  ctx :: context2d

definition buffer :: "CACanvas \<Rightarrow> canvas" where
  "buffer this = canvas (ctx this)"

record world =
  doc :: document
  ca :: CACanvas

text \<open>An omitted argument (\<open>undefined\<close>) is \<open>None\<close> and takes the parameter's default.\<close>

definition constructor :: "int \<Rightarrow> int option \<Rightarrow> error + CACanvas" where
  "constructor size0 cSize0 =
     (let cSize1 = (case cSize0 of None \<Rightarrow> 20 | Some c \<Rightarrow> c);
          b0 = createElement_canvas;
          b1 = set_width (js_times size0 cSize1) b0;
          b2 = set_height (js_times size0 cSize1) b1
      in Inr \<lparr>size' = size0, cSize = cSize1, ctx = getContext_2d b2\<rparr>)"

definition draw ::
  "backend \<Rightarrow> CACanvas \<Rightarrow> int \<Rightarrow> int \<Rightarrow> string \<Rightarrow> bool option \<Rightarrow> string option
     \<Rightarrow> (error + int) \<times> CACanvas" where
  "draw B this x y cellColor circle0 circleColor0 =
     (let circle = (case circle0 of None \<Rightarrow> False | Some b \<Rightarrow> b);
          circleColor = (case circleColor0 of None \<Rightarrow> ''#000000'' | Some k \<Rightarrow> k);
          c1 = beginPath (ctx this);
          c2 = rect (x * cSize this) (y * cSize this) (cSize this) (cSize this) c1;
          c3 = set_fillStyle B cellColor c2;
          c4 = fill c3
      in if circle = True then
           (let offset = cSize this div 2;
                c5 = beginPath c4
            in case arc (x * cSize this + offset) (y * cSize this + offset) (offset - 1)
                      0 (2 * Math_PI) c5 of
                 Inl e \<Rightarrow> (Inl e, this\<lparr>ctx := c5\<rparr>)
               | Inr c6 \<Rightarrow>
                   (let c7 = set_fillStyle B circleColor c6;
                        c8 = fill c7;
                        c9 = set_strokeStyle B ''#000000'' c8;
                        c10 = stroke c9
                    in (Inr (cSize this), this\<lparr>ctx := c10\<rparr>)))
         else (Inr (cSize this), this\<lparr>ctx := c4\<rparr>))"

definition drawLine ::
  "backend \<Rightarrow> CACanvas \<Rightarrow> int \<Rightarrow> int \<Rightarrow> int \<Rightarrow> int \<Rightarrow> (error + unit) \<times> CACanvas" where
  "drawLine B this x1 y1 x2 y2 =
     (let offset = cSize this div 2;
          c1 = beginPath (ctx this);
          c2 = set_strokeStyle B ''#000000'' c1;
          c3 = moveTo (x1 * cSize this + offset) (y1 * cSize this + offset) c2;
          c4 = lineTo (x2 * cSize this + offset) (y2 * cSize this + offset) c3;
          c5 = stroke c4
      in (Inr (), this\<lparr>ctx := c5\<rparr>))"

text \<open>
  \<open>update\<close> takes the context that the page's canvas has, in whatever drawing state the
  page left it, and draws the buffer with it.
\<close>

definition update :: "string \<Rightarrow> world \<Rightarrow> (error + int) \<times> world" where
  "update canvasID w =
     (case getElementById (doc w) canvasID of
        None \<Rightarrow> (Inl TypeError, w)
      | Some visible_canvas \<Rightarrow>
          (case getContext visible_canvas of
             Inl e \<Rightarrow> (Inl e, w)
           | Inr None \<Rightarrow> (Inl TypeError, w)
           | Inr (Some vctx) \<Rightarrow>
               (case drawImage (buffer (ca w))
                       0 0 (width (canvas (ctx (ca w)))) (height (canvas (ctx (ca w))))
                       0 0 (width (canvas vctx)) (height (canvas vctx)) vctx of
                  Inl e \<Rightarrow> (Inl e, w)
                | Inr vctx' \<Rightarrow>
                    (Inr (width (canvas vctx')),
                     w\<lparr>doc := (doc w)(canvasID \<mapsto> Canvas2D vctx')\<rparr>))))"

text \<open>
  The calls a driver can make on an instance, and a run of them. A caller may catch an
  exception and go on, so a run continues from the state a failed call leaves.
\<close>

datatype call =
    Draw int int string "bool option" "string option"
  | DrawLine int int int int
  | Update string

fun exec :: "backend \<Rightarrow> call \<Rightarrow> world \<Rightarrow> world" where
  "exec B (Draw x y k m mk) w = w\<lparr>ca := snd (draw B (ca w) x y k m mk)\<rparr>"
| "exec B (DrawLine x1 y1 x2 y2) w = w\<lparr>ca := snd (drawLine B (ca w) x1 y1 x2 y2)\<rparr>"
| "exec B (Update i) w = snd (update i w)"

definition run :: "backend \<Rightarrow> call list \<Rightarrow> world \<Rightarrow> world" where
  "run B cs w = fold (exec B) cs w"

text \<open>
  The square of cell \<open>(x, y)\<close> for cell pixel size \<open>c\<close>: side \<open>c\<close>, top-left corner at pixel
  \<open>(x * c, y * c)\<close>.
\<close>

definition cell_square :: "int \<Rightarrow> int \<Rightarrow> int \<Rightarrow> point \<Rightarrow> bool" where
  "cell_square c x y p =
     (real_of_int (x * c) \<le> fst p \<and> fst p < real_of_int (x * c + c) \<and>
      real_of_int (y * c) \<le> snd p \<and> snd p < real_of_int (y * c + c))"

section \<open>An example backend and page\<close>

text \<open>
  A backend to run examples on. It knows a few colours, allocates a bitmap for a canvas of
  at most 32767 pixels a side and \<open>2 ^ 28\<close> pixels in all, and draws nothing in a drawing
  state that is not the default (as under a global alpha of 0, the one such state the
  examples use).
\<close>

definition example_backend :: backend where
  "example_backend =
     \<lparr>css = (\<lambda>s. if s \<in> set [''#ff0000'', ''#00ff00'', ''#0000ff'', ''#ffffff'']
                 then Some Opaque
                 else if s = ''rgba(255, 0, 0, 0.5)'' then Some Translucent else None),
      allocates = (\<lambda>w h. 0 < w \<and> 0 < h \<and> w \<le> 32767 \<and> h \<le> 32767 \<and> w * h \<le> 268435456),
      render = (\<lambda>l p below. below)\<rparr>"

text \<open>
  The page: \<open>view\<close> is a 200 by 200 canvas that was painted white before, \<open>faded\<close> the same
  with its context left at global alpha 0, \<open>gl\<close> a canvas bound to another kind of context,
  \<open>title\<close> an element that is no canvas. \<open>shown\<close> reads what a canvas of the document shows
  at a point.
\<close>

definition white_view :: canvas where
  "white_view = \<lparr>width = 200, height = 200, paints = [Fill [Rect 0 0 200 200] ''#ffffff'']\<rparr>"

definition page :: "CACanvas \<Rightarrow> world" where
  "page this = \<lparr>doc = [''view'' \<mapsto> Canvas2D (getContext_2d white_view),
                          ''faded'' \<mapsto> Canvas2D ((getContext_2d white_view)
                             \<lparr>dstate := default_dstate\<lparr>globalAlpha := 0\<rparr>\<rparr>),
                          ''gl'' \<mapsto> CanvasOther white_view,
                          ''title'' \<mapsto> OtherElement], ca = this\<rparr>"


section \<open>Basic facts\<close>

lemmas ctx_ops = beginPath_def rect_def arc_def moveTo_def lineTo_def set_fillStyle_def
  set_strokeStyle_def fill_def stroke_def paint_on_def

lemma radius_negative: "(c div 2 < 1) = (c < (2::int))"
  by presburger

lemma assigned_black: "assigned B ''#000000'' previous = ''#000000''"
  by (simp add: assigned_def css_colour_def)

lemma assigned_colour: "css_colour B s \<noteq> None \<Longrightarrow> assigned B s previous = s"
  by (auto simp add: assigned_def)


lemma draw_result:
  "fst (draw B this x y k m mk) =
     (if m = Some True \<and> cSize this < 2 then Inl IndexSizeError else Inr (cSize this))"
  by (cases m) (simp_all add: draw_def Let_def arc_def radius_negative)

lemma draw_paints:
  "paints (buffer (snd (draw B this x y k m mk))) =
     paints (buffer this) @
       Fill [Rect (x * cSize this) (y * cSize this) (cSize this) (cSize this)]
         (assigned B k (fillStyle (ctx this))) #
       (if m = Some True \<and> 2 \<le> cSize this
        then [Fill [Arc (x * cSize this + cSize this div 2) (y * cSize this + cSize this div 2)
                      (cSize this div 2 - 1) 0 (2 * Math_PI)]
                (assigned B (case mk of None \<Rightarrow> ''#000000'' | Some s \<Rightarrow> s)
                   (assigned B k (fillStyle (ctx this)))),
              Stroke [Arc (x * cSize this + cSize this div 2) (y * cSize this + cSize this div 2)
                      (cSize this div 2 - 1) 0 (2 * Math_PI)]
                ''#000000'' (lineWidth (ctx this))]
        else [])"
  by (cases m)
    (auto simp add: draw_def Let_def buffer_def ctx_ops radius_negative assigned_black)

lemma draw_frame:
  "cSize (snd (draw B this x y k m mk)) = cSize this \<and>
   size' (snd (draw B this x y k m mk)) = size' this \<and>
   lineWidth (ctx (snd (draw B this x y k m mk))) = lineWidth (ctx this) \<and>
   width (buffer (snd (draw B this x y k m mk))) = width (buffer this) \<and>
   height (buffer (snd (draw B this x y k m mk))) = height (buffer this)"
  by (cases m) (auto simp add: draw_def Let_def buffer_def ctx_ops)

lemma drawLine_frame:
  "cSize (snd (drawLine B this x1 y1 x2 y2)) = cSize this \<and>
   size' (snd (drawLine B this x1 y1 x2 y2)) = size' this \<and>
   lineWidth (ctx (snd (drawLine B this x1 y1 x2 y2))) = lineWidth (ctx this) \<and>
   width (buffer (snd (drawLine B this x1 y1 x2 y2))) = width (buffer this) \<and>
   height (buffer (snd (drawLine B this x1 y1 x2 y2))) = height (buffer this)"
  by (simp add: drawLine_def Let_def buffer_def ctx_ops)

lemma update_ca: "ca (snd (update i w)) = ca w"
  by (simp add: update_def drawImage_def split: option.splits sum.splits)

lemma exec_frame:
  "cSize (ca (exec B a w)) = cSize (ca w) \<and>
   size' (ca (exec B a w)) = size' (ca w) \<and>
   lineWidth (ctx (ca (exec B a w))) = lineWidth (ctx (ca w)) \<and>
   width (buffer (ca (exec B a w))) = width (buffer (ca w)) \<and>
   height (buffer (ca (exec B a w))) = height (buffer (ca w))"
  by (cases a) (simp_all add: draw_frame drawLine_frame update_ca)

lemma run_frame:
  "cSize (ca (run B cs w)) = cSize (ca w) \<and>
   size' (ca (run B cs w)) = size' (ca w) \<and>
   lineWidth (ctx (ca (run B cs w))) = lineWidth (ctx (ca w)) \<and>
   width (buffer (ca (run B cs w))) = width (buffer (ca w)) \<and>
   height (buffer (ca (run B cs w))) = height (buffer (ca w))"
  unfolding run_def
proof (induction cs arbitrary: w)
  case Nil
  show ?case by simp
next
  case (Cons a cs)
  show ?case using Cons.IH [of "exec B a w"] exec_frame [of B a w] by simp
qed

lemma bitlen_le: "n < 2 ^ k \<Longrightarrow> bitlen n \<le> k"
proof (induction k arbitrary: n)
  case 0
  then show ?case by (simp add: bitlen.simps)
next
  case (Suc k)
  show ?case
  proof (cases "n \<le> 0")
    case True
    then show ?thesis by (simp add: bitlen.simps)
  next
    case False
    have "n div 2 < 2 ^ k"
      using Suc.prems by simp
    then have "bitlen (n div 2) \<le> k"
      by (rule Suc.IH)
    then show ?thesis
      using False by (simp add: bitlen.simps [of n])
  qed
qed

lemma round_double_small: "\<bar>n\<bar> < 2 ^ 53 \<Longrightarrow> round_double n = Finite n"
proof -
  assume "\<bar>n\<bar> < 2 ^ 53"
  then have "bitlen \<bar>n\<bar> \<le> 53"
    by (rule bitlen_le)
  then show ?thesis
    by (simp add: round_double_def Let_def)
qed

lemma reflect_in_range:
  "0 \<le> v \<Longrightarrow> v \<le> 2147483647 \<Longrightarrow> reflect_unsigned_long dflt (js_times a b) = v"
  if "a * b = v"
  using that by (simp add: reflect_unsigned_long_def Let_def ToUint32_def js_times_def
      round_double_small)

lemma constructor_fields:
  "constructor d c0 = Inr this \<Longrightarrow>
     size' this = d \<and> cSize this = (case c0 of None \<Rightarrow> 20 | Some c \<Rightarrow> c) \<and>
     lineWidth (ctx this) = 1 \<and> paints (buffer this) = [] \<and> path (ctx this) = [] \<and>
     fillStyle (ctx this) = ''#000000'' \<and>
     width (buffer this) = reflect_unsigned_long 300 (js_times d (cSize this)) \<and>
     height (buffer this) = reflect_unsigned_long 150 (js_times d (cSize this))"
  by (auto simp add: constructor_def Let_def buffer_def getContext_2d_def set_width_def
      set_height_def createElement_canvas_def)

lemma constructor_Inr: "constructor d c0 = Inr (projr (constructor d c0))"
  by (simp add: constructor_def Let_def)

lemma reachable_lineWidth:
  "lineWidth (ctx (ca (run B cs \<lparr>doc = D, ca = projr (constructor d c0)\<rparr>))) = 1"
  using run_frame [of B cs "\<lparr>doc = D, ca = projr (constructor d c0)\<rparr>"]
    constructor_fields [OF constructor_Inr, of d c0]
  by simp






lemma over_Blank: "over s Blank = s"
  by (induction s) simp_all

lemma coord_within:
  fixes u m r :: real
  assumes "(u - m)\<^sup>2 + v\<^sup>2 \<le> r\<^sup>2" and "0 \<le> r"
  shows "m - r \<le> u \<and> u \<le> m + r"
proof -
  have "(u - m)\<^sup>2 \<le> r\<^sup>2"
    using assms(1) zero_le_power2 [of v] by linarith
  then have "\<bar>u - m\<bar> \<le> \<bar>r\<bar>"
    by (simp only: abs_le_square_iff)
  then show ?thesis
    using assms(2) by linarith
qed

lemma marker_inside:
  assumes c: "2 \<le> c"
    and d: "dist2 (x * c + c div 2) (y * c + c div 2) p \<le> (real_of_int (c div 2 - 1) + 1 / 2)\<^sup>2"
  shows "cell_square c x y p"
proof -
  define h where "h = c div 2"
  have h: "1 \<le> h" "2 * h \<le> c"
    using c by (simp_all add: h_def)
  have r: "0 \<le> real_of_int (h - 1) + 1 / 2"
    using h(1) by simp
  have hr: "2 * real_of_int h \<le> real_of_int c"
    using h(2) by linarith
  have dx: "(fst p - real_of_int (x * c + h))\<^sup>2 + (snd p - real_of_int (y * c + h))\<^sup>2
              \<le> (real_of_int (h - 1) + 1 / 2)\<^sup>2"
    using d by (simp add: dist2_def h_def)
  have dy: "(snd p - real_of_int (y * c + h))\<^sup>2 + (fst p - real_of_int (x * c + h))\<^sup>2
              \<le> (real_of_int (h - 1) + 1 / 2)\<^sup>2"
    using dx by (simp add: add.commute)
  from coord_within [OF dx r] coord_within [OF dy r] hr
  show ?thesis
    by (simp add: cell_square_def)
qed

lemma in_disc_bound:
  "in_disc cx cy r p \<Longrightarrow> dist2 cx cy p \<le> (real_of_int r + 1 / 2)\<^sup>2"
proof -
  assume a: "in_disc cx cy r p"
  then have "0 < r" and le: "dist2 cx cy p \<le> (real_of_int r)\<^sup>2"
    by (simp_all add: in_disc_def)
  then have "(real_of_int r)\<^sup>2 \<le> (real_of_int r + 1 / 2)\<^sup>2"
    by (intro power_mono) simp_all
  with le show ?thesis by linarith
qed

lemma on_circle_bound:
  "on_circle cx cy r 1 p \<Longrightarrow> dist2 cx cy p \<le> (real_of_int r + 1 / 2)\<^sup>2"
  by (simp add: on_circle_def)

lemma canvas_eta: "\<lparr>width = width cv, height = height cv, paints = paints cv\<rparr> = (cv::canvas)"
  by simp

text \<open>
  The product of two doubles above \<open>2 ^ 53\<close>: \<open>94906267 * 94906267 = 9007199515875289\<close> is
  odd and has 54 bits, so the constructor stores the even double next to it.
\<close>

lemma constructor_rounds_product:
  "width (buffer (projr (constructor 94906267 (Some 94906267)))) = 261134296"
  by code_simp

section \<open>Construction\<close>

text \<open>
  C6 (as amended). The constructor validates nothing and never fails: for every pair of
  arguments, positive or not, it returns an instance holding the two numbers, a buffer
  whose width and height are what the canvas element makes of their product, and a fresh
  drawing context.
\<close>

theorem constructor_never_fails:
  "constructor d c0 =
     Inr \<lparr>size' = d, cSize = (case c0 of None \<Rightarrow> 20 | Some c \<Rightarrow> c),
          ctx = \<lparr>canvas =
                   \<lparr>width = reflect_unsigned_long 300
                              (js_times d (case c0 of None \<Rightarrow> 20 | Some c \<Rightarrow> c)),
                    height = reflect_unsigned_long 150
                              (js_times d (case c0 of None \<Rightarrow> 20 | Some c \<Rightarrow> c)),
                    paints = []\<rparr>,
                 path = [], fillStyle = ''#000000'', strokeStyle = ''#000000'',
                 lineWidth = 1, dstate = default_dstate\<rparr>\<rparr>"
  by (simp add: constructor_def Let_def getContext_2d_def set_width_def
      set_height_def createElement_canvas_def)

text \<open>
  The claim wants a failure for a non-positive argument. Grid dimension 0 gives an instance
  with a buffer of no pixels, and a negative cell pixel size gives an instance as well.
\<close>

theorem constructor_counterexample:
  "constructor 0 (Some 20) =
     Inr \<lparr>size' = 0, cSize = 20,
          ctx = \<lparr>canvas = \<lparr>width = 0, height = 0, paints = []\<rparr>,
                 path = [], fillStyle = ''#000000'', strokeStyle = ''#000000'',
                 lineWidth = 1, dstate = default_dstate\<rparr>\<rparr> \<and>
   \<not> isl (constructor 10 (Some (- 5)))"
  by (simp add: constructor_def Let_def getContext_2d_def set_width_def
      set_height_def createElement_canvas_def reflect_unsigned_long_def ToUint32_def
      js_times_def round_double_small)

text \<open>
  C4 (as amended). For a grid dimension \<open>d > 0\<close> and a cell pixel size \<open>c > 0\<close> (given, or
  the default 20) whose product is at most 2147483647, the constructed buffer is \<open>d * c\<close>
  pixels wide and high, and it still is after any run of \<open>draw\<close>, \<open>drawLine\<close> and \<open>update\<close>
  calls.
\<close>

theorem buffer_size_fixed:
  assumes "0 < d" and "0 < c" and "d * c \<le> 2147483647"
    and "c = (case c0 of None \<Rightarrow> 20 | Some v \<Rightarrow> v)"
  shows "width (buffer (projr (constructor d c0))) = d * c \<and>
         height (buffer (projr (constructor d c0))) = d * c \<and>
         width (buffer (ca (run B cs \<lparr>doc = D, ca = projr (constructor d c0)\<rparr>))) = d * c \<and>
         height (buffer (ca (run B cs \<lparr>doc = D, ca = projr (constructor d c0)\<rparr>))) = d * c"
proof -
  have "0 \<le> d * c"
    using assms(1,2) by simp
  then have "reflect_unsigned_long 300 (js_times d c) = d * c"
    "reflect_unsigned_long 150 (js_times d c) = d * c"
    using assms(3) by (simp_all add: reflect_in_range)
  then have "width (buffer (projr (constructor d c0))) = d * c"
    "height (buffer (projr (constructor d c0))) = d * c"
    using constructor_fields [OF constructor_Inr, of d c0] assms(4) by simp_all
  then show ?thesis
    using run_frame [of B cs "\<lparr>doc = D, ca = projr (constructor d c0)\<rparr>"] by simp
qed

theorem buffer_size_fixed_witness:
  "width (buffer (ca (run example_backend
      [Draw 3 4 ''#ff0000'' None None, DrawLine 3 4 5 5, Update ''view'']
      (page (projr (constructor 10 (Some 20))))))) = 200 \<and>
   height (buffer (ca (run example_backend
      [Draw 3 4 ''#ff0000'' None None, DrawLine 3 4 5 5, Update ''view'']
      (page (projr (constructor 10 (Some 20))))))) = 200"
  using buffer_size_fixed [of 10 20 "Some 20" example_backend
      "[Draw 3 4 ''#ff0000'' None None, DrawLine 3 4 5 5, Update ''view'']"
      "doc (page (projr (constructor 10 (Some 20))))"]
  by (simp add: page_def)

text \<open>
  The bound is needed: \<open>65536 * 32768 = 2 ^ 31\<close> is above the largest value the width
  attribute takes, so the buffer falls back to the default width 300.
\<close>

theorem buffer_size_counterexample:
  "width (buffer (projr (constructor 65536 (Some 32768)))) \<noteq> 65536 * 32768"
  by (simp add: constructor_def Let_def buffer_def getContext_2d_def set_width_def
      set_height_def createElement_canvas_def reflect_unsigned_long_def ToUint32_def
      js_times_def round_double_small)

section \<open>Cell drawing\<close>


lemma example_instance:
  "cSize (projr (constructor 10 (Some 20))) = 20"
  "width (buffer (projr (constructor 10 (Some 20)))) = 200"
  "height (buffer (projr (constructor 10 (Some 20)))) = 200"
  "paints (buffer (projr (constructor 10 (Some 20)))) = []"
  "fillStyle (ctx (projr (constructor 10 (Some 20)))) = ''#000000''"
  using constructor_fields [OF constructor_Inr, of 10 "Some 20"]
  by (simp_all add: reflect_unsigned_long_def ToUint32_def js_times_def round_double_small)



text \<open>
  C2 (as amended). On an instance with cell pixel size \<open>c\<close> at least 2,
  \<open>draw (x, y, cellColor, true, circleColor)\<close> returns \<open>c\<close> and paints three things in this
  order: the cell's square, then, with \<open>offset = floor (c / 2)\<close>, the full circle of radius
  \<open>offset - 1\<close> around \<open>(x * c + offset, y * c + offset)\<close> filled in the fill style after
  assigning \<open>circleColor\<close> (which is \<open>circleColor\<close> for every CSS colour), then the same
  circle stroked in black with the default line width 1. Every point that the filled
  circle or its outline covers lies in the cell's square.
\<close>

theorem draw_marker:
  assumes inst: "this = ca (run B cs \<lparr>doc = D, ca = projr (constructor d c0)\<rparr>)"
    and c: "2 \<le> cSize this"
  shows "fst (draw B this x y k (Some True) mk) = Inr (cSize this) \<and>
    paints (buffer (snd (draw B this x y k (Some True) mk))) =
      paints (buffer this) @
        [Fill [Rect (x * cSize this) (y * cSize this) (cSize this) (cSize this)]
           (assigned B k (fillStyle (ctx this))),
         Fill [Arc (x * cSize this + cSize this div 2) (y * cSize this + cSize this div 2)
                 (cSize this div 2 - 1) 0 (2 * Math_PI)]
           (assigned B (case mk of None \<Rightarrow> ''#000000'' | Some s \<Rightarrow> s)
              (assigned B k (fillStyle (ctx this)))),
         Stroke [Arc (x * cSize this + cSize this div 2) (y * cSize this + cSize this div 2)
                   (cSize this div 2 - 1) 0 (2 * Math_PI)]
           ''#000000'' 1] \<and>
    (css_colour B k \<noteq> None \<longrightarrow> assigned B k (fillStyle (ctx this)) = k) \<and>
    (css_colour B (case mk of None \<Rightarrow> ''#000000'' | Some s \<Rightarrow> s) \<noteq> None \<longrightarrow>
       assigned B (case mk of None \<Rightarrow> ''#000000'' | Some s \<Rightarrow> s)
         (assigned B k (fillStyle (ctx this))) = (case mk of None \<Rightarrow> ''#000000'' | Some s \<Rightarrow> s)) \<and>
    (\<forall>p. fill_covers [Arc (x * cSize this + cSize this div 2)
                            (y * cSize this + cSize this div 2)
                            (cSize this div 2 - 1) 0 (2 * Math_PI)] p \<or>
         stroke_covers None [Arc (x * cSize this + cSize this div 2)
                                  (y * cSize this + cSize this div 2)
                                  (cSize this div 2 - 1) 0 (2 * Math_PI)] 1 p
       \<longrightarrow> cell_square (cSize this) x y p)"
proof (intro conjI allI impI)
  have lw: "lineWidth (ctx this) = 1"
    unfolding inst by (rule reachable_lineWidth)
  show "fst (draw B this x y k (Some True) mk) = Inr (cSize this)"
    using c by (simp add: draw_result)
  show "paints (buffer (snd (draw B this x y k (Some True) mk))) =
      paints (buffer this) @
        [Fill [Rect (x * cSize this) (y * cSize this) (cSize this) (cSize this)]
           (assigned B k (fillStyle (ctx this))),
         Fill [Arc (x * cSize this + cSize this div 2) (y * cSize this + cSize this div 2)
                 (cSize this div 2 - 1) 0 (2 * Math_PI)]
           (assigned B (case mk of None \<Rightarrow> ''#000000'' | Some s \<Rightarrow> s)
              (assigned B k (fillStyle (ctx this)))),
         Stroke [Arc (x * cSize this + cSize this div 2) (y * cSize this + cSize this div 2)
                   (cSize this div 2 - 1) 0 (2 * Math_PI)]
           ''#000000'' 1]"
    using c lw by (simp add: draw_paints)
next
  assume "css_colour B k \<noteq> None"
  then show "assigned B k (fillStyle (ctx this)) = k"
    by (rule assigned_colour)
next
  assume "css_colour B (case mk of None \<Rightarrow> ''#000000'' | Some s \<Rightarrow> s) \<noteq> None"
  then show "assigned B (case mk of None \<Rightarrow> ''#000000'' | Some s \<Rightarrow> s)
         (assigned B k (fillStyle (ctx this))) = (case mk of None \<Rightarrow> ''#000000'' | Some s \<Rightarrow> s)"
    by (rule assigned_colour)
next
  fix p
  assume "fill_covers [Arc (x * cSize this + cSize this div 2)
                            (y * cSize this + cSize this div 2)
                            (cSize this div 2 - 1) 0 (2 * Math_PI)] p \<or>
         stroke_covers None [Arc (x * cSize this + cSize this div 2)
                                  (y * cSize this + cSize this div 2)
                                  (cSize this div 2 - 1) 0 (2 * Math_PI)] 1 p"
  then have "in_disc (x * cSize this + cSize this div 2) (y * cSize this + cSize this div 2)
               (cSize this div 2 - 1) p \<or>
             on_circle (x * cSize this + cSize this div 2) (y * cSize this + cSize this div 2)
               (cSize this div 2 - 1) 1 p"
    by auto
  then have "dist2 (x * cSize this + cSize this div 2) (y * cSize this + cSize this div 2) p
               \<le> (real_of_int (cSize this div 2 - 1) + 1 / 2)\<^sup>2"
    using in_disc_bound on_circle_bound by blast
  then show "cell_square (cSize this) x y p"
    using c by (rule marker_inside [rotated])
qed

theorem draw_marker_witness:
  "fst (draw example_backend (projr (constructor 10 (Some 20))) 3 4 ''#00ff00'' (Some True)
     (Some ''#0000ff'')) = Inr 20 \<and>
   paints (buffer (snd (draw example_backend (projr (constructor 10 (Some 20))) 3 4 ''#00ff00''
     (Some True) (Some ''#0000ff'')))) =
     [Fill [Rect 60 80 20 20] ''#00ff00'', Fill [Arc 70 90 9 0 (2 * Math_PI)] ''#0000ff'',
      Stroke [Arc 70 90 9 0 (2 * Math_PI)] ''#000000'' 1] \<and>
   fill_covers [Arc 70 90 9 0 (2 * Math_PI)] (75, 95) \<and>
   cell_square 20 3 4 (75, 95)"
proof -
  have r: "projr (constructor 10 (Some 20)) =
      ca (run example_backend [] \<lparr>doc = Map.empty, ca = projr (constructor 10 (Some 20))\<rparr>)"
    by (simp add: run_def)
  have p: "fill_covers [Arc 70 90 9 0 (2 * Math_PI)] (75, 95)"
    by (simp add: in_disc_def dist2_def Math_PI_def)
  have k: "assigned example_backend ''#00ff00'' ''#000000'' = ''#00ff00''"
    "assigned example_backend ''#0000ff'' ''#00ff00'' = ''#0000ff''"
    by (simp_all add: assigned_def css_colour_def example_backend_def)
  show ?thesis
    using draw_marker [OF r, of 3 4 "''#00ff00''" "Some ''#0000ff''"] p k
    by (simp add: example_instance)
qed

text \<open>
  The claim as stated covers every cell pixel size. With \<open>c = 1\<close> the radius is \<open>-1\<close>: \<open>arc\<close>
  throws, and the buffer holds the cell fill only, with no circle filled or stroked.
\<close>

theorem draw_marker_counterexample:
  "paints (buffer (snd (draw example_backend (projr (constructor 4 (Some 1))) 1 1 ''#ffffff''
     (Some True) (Some ''#ff0000'')))) = [Fill [Rect 1 1 1 1] ''#ffffff'']"
  by (simp add: constructor_def draw_def Let_def buffer_def ctx_ops getContext_2d_def
      set_width_def set_height_def createElement_canvas_def assigned_def css_colour_def
      example_backend_def)



section \<open>Line drawing\<close>

text \<open>
  C5. \<open>drawLine (x1, y1, x2, y2)\<close> on an instance with cell pixel size \<open>c\<close> computes
  \<open>offset = floor (c / 2)\<close> and strokes, in black, the single segment from
  \<open>(x1 * c + offset, y1 * c + offset)\<close> to \<open>(x2 * c + offset, y2 * c + offset)\<close> on the
  buffer: the stroke paints black exactly the points of the band around that segment. The
  call returns no value and changes nothing else of the buffer.
\<close>

theorem drawLine_strokes_segment:
  "fst (drawLine B this x1 y1 x2 y2) = Inr () \<and>
   paints (buffer (snd (drawLine B this x1 y1 x2 y2))) =
     paints (buffer this) @
       [Stroke [MoveTo (x1 * cSize this + cSize this div 2) (y1 * cSize this + cSize this div 2),
                LineTo (x2 * cSize this + cSize this div 2) (y2 * cSize this + cSize this div 2)]
          ''#000000'' (lineWidth (ctx this))] \<and>
   apply_paint B
       (Stroke [MoveTo (x1 * cSize this + cSize this div 2) (y1 * cSize this + cSize this div 2),
                LineTo (x2 * cSize this + cSize this div 2) (y2 * cSize this + cSize this div 2)]
          ''#000000'' (lineWidth (ctx this))) p below =
     (if on_segment (x1 * cSize this + cSize this div 2, y1 * cSize this + cSize this div 2)
           (x2 * cSize this + cSize this div 2, y2 * cSize this + cSize this div 2)
           (lineWidth (ctx this)) p
      then Solid ''#000000'' else below) \<and>
   width (buffer (snd (drawLine B this x1 y1 x2 y2))) = width (buffer this) \<and>
   height (buffer (snd (drawLine B this x1 y1 x2 y2))) = height (buffer this)"
  by (simp add: drawLine_def Let_def buffer_def beginPath_def set_strokeStyle_def moveTo_def
      lineTo_def stroke_def paint_on_def assigned_black lay_def css_colour_def)

section \<open>Drawing calls and errors\<close>

text \<open>
  C9 (as amended). \<open>drawLine\<close> never raises. \<open>draw\<close> raises in exactly one case: a marker
  is asked for and the cell pixel size is below 2, where the negative radius makes \<open>arc\<close>
  throw an \<open>IndexSizeError\<close>; in every other case, whatever the coordinates, it completes
  and returns the cell pixel size.
\<close>

theorem drawing_calls_outcome:
  "fst (drawLine B this x1 y1 x2 y2) = Inr () \<and>
   fst (draw B this x y k m mk) =
     (if m = Some True \<and> cSize this < 2 then Inl IndexSizeError else Inr (cSize this))"
proof (intro conjI)
  show "fst (drawLine B this x1 y1 x2 y2) = Inr ()"
    by (simp add: drawLine_def Let_def)
  show "fst (draw B this x y k m mk) =
     (if m = Some True \<and> cSize this < 2 then Inl IndexSizeError else Inr (cSize this))"
  proof (cases "m = Some True")
    case True
    then show ?thesis
      by (simp add: draw_def Let_def arc_def radius_negative)
  next
    case False
    then show ?thesis
      by (cases m) (simp_all add: draw_def Let_def)
  qed
qed

text \<open>
  The claim names cell pixel size 1 with a marker as a call that completes; it raises.
\<close>

theorem drawing_calls_counterexample:
  "fst (draw example_backend (projr (constructor 5 (Some 1))) 2 3 ''#00ff00'' (Some True)
     (Some ''#0000ff'')) = Inl IndexSizeError"
  by (simp add: constructor_def draw_def Let_def arc_def)

section \<open>Flush to the visible canvas\<close>






text \<open>
  C7. \<open>update\<close> with an identifier that resolves to nothing, to an element that is no
  canvas, or to a canvas without a 2D context raises the environment's \<open>TypeError\<close> (the
  failure the specification calls SurfaceNotFound) and changes nothing: the document, with
  every visible canvas, and the instance with its buffer are as before the call.
\<close>

theorem update_surface_missing:
  assumes "doc w i = None \<or> doc w i = Some OtherElement \<or> (\<exists>cv. doc w i = Some (CanvasOther cv))"
  shows "update i w = (Inl TypeError, w)"
  using assms by (auto simp add: update_def getElementById_def)

theorem update_surface_missing_witness:
  "update ''nowhere'' (page (projr (constructor 10 (Some 20))))
     = (Inl TypeError, page (projr (constructor 10 (Some 20)))) \<and>
   update ''title'' (page (projr (constructor 10 (Some 20))))
     = (Inl TypeError, page (projr (constructor 10 (Some 20)))) \<and>
   update ''gl'' (page (projr (constructor 10 (Some 20))))
     = (Inl TypeError, page (projr (constructor 10 (Some 20))))"
  using update_surface_missing [of "page (projr (constructor 10 (Some 20)))" "''nowhere''"]
    update_surface_missing [of "page (projr (constructor 10 (Some 20)))" "''title''"]
    update_surface_missing [of "page (projr (constructor 10 (Some 20)))" "''gl''"]
  by (simp add: page_def)

text \<open>
  C10. A successful \<open>update\<close> leaves the instance as it was: the buffer's paint list and
  dimensions, the grid dimension and the cell pixel size. In the document it changes only
  the element it was given the identifier of.
\<close>

theorem update_leaves_instance:
  assumes "fst (update i w) = Inr v"
  shows "ca (snd (update i w)) = ca w \<and>
         paints (buffer (ca (snd (update i w)))) = paints (buffer (ca w)) \<and>
         width (buffer (ca (snd (update i w)))) = width (buffer (ca w)) \<and>
         height (buffer (ca (snd (update i w)))) = height (buffer (ca w)) \<and>
         size' (ca (snd (update i w))) = size' (ca w) \<and>
         cSize (ca (snd (update i w))) = cSize (ca w) \<and>
         (\<forall>j. j \<noteq> i \<longrightarrow> doc (snd (update i w)) j = doc w j)"
proof -
  have "\<forall>j. j \<noteq> i \<longrightarrow> doc (snd (update i w)) j = doc w j"
    by (simp add: update_def drawImage_def split: option.splits sum.splits)
  then show ?thesis
    by (simp add: update_ca)
qed

theorem update_leaves_instance_witness:
  "fst (update ''view''
     (page (snd (draw example_backend (projr (constructor 10 (Some 20))) 3 4 ''#ff0000''
        None None)))) = Inr 200 \<and>
   ca (snd (update ''view''
     (page (snd (draw example_backend (projr (constructor 10 (Some 20))) 3 4 ''#ff0000''
        None None))))) =
     snd (draw example_backend (projr (constructor 10 (Some 20))) 3 4 ''#ff0000'' None None) \<and>
   doc (snd (update ''view''
     (page (snd (draw example_backend (projr (constructor 10 (Some 20))) 3 4 ''#ff0000''
        None None))))) ''title'' = Some OtherElement"
proof -
  have r: "fst (update ''view''
      (page (snd (draw example_backend (projr (constructor 10 (Some 20))) 3 4 ''#ff0000''
         None None)))) = Inr 200"
    by (simp add: update_def getElementById_def page_def drawImage_def buffer_def
        constructor_def Let_def draw_def ctx_ops getContext_2d_def set_width_def set_height_def
        createElement_canvas_def reflect_unsigned_long_def ToUint32_def js_times_def
        round_double_small white_view_def)
  show ?thesis
    using update_leaves_instance [OF r] r by (simp add: page_def)
qed

end
